theory Spec2Isabelle
  imports Complex_Main
begin

section \<open>Strings and numbers of the host language\<close>

text \<open>
  The handlers build their log lines and store contents with template literals. The
  pieces they need are: the decimal rendering of an integer, ASCII case mapping,
  \<open>substring(0, n)\<close> (written \<open>take n\<close> below) and \<open>Date.prototype.toISOString\<close>.
  Strings are byte lists; case mapping touches the ASCII letters only.
\<close>

definition digit_char :: "nat \<Rightarrow> char" where
  "digit_char d = ''0123456789'' ! (d mod 10)"

function show_nat :: "nat \<Rightarrow> string" where
  "show_nat n = (if n < 10 then [digit_char n] else show_nat (n div 10) @ [digit_char (n mod 10)])"
  by pat_completeness auto
termination
  by (relation "measure (\<lambda>n. n)") auto

declare show_nat.simps [simp del]

definition show_int :: "int \<Rightarrow> string" where
  "show_int i = (if i < 0 then CHR ''-'' # show_nat (nat (- i)) else show_nat (nat i))"

definition ascii_upper :: string where
  "ascii_upper = ''ABCDEFGHIJKLMNOPQRSTUVWXYZ''"

definition ascii_lower :: string where
  "ascii_lower = ''abcdefghijklmnopqrstuvwxyz''"

definition lower_char :: "char \<Rightarrow> char" where
  "lower_char c = (case map_of (zip ascii_upper ascii_lower) c of None \<Rightarrow> c | Some d \<Rightarrow> d)"

definition upper_char :: "char \<Rightarrow> char" where
  "upper_char c = (case map_of (zip ascii_lower ascii_upper) c of None \<Rightarrow> c | Some d \<Rightarrow> d)"

definition toLowerCase :: "string \<Rightarrow> string" where
  "toLowerCase s = map lower_char s"

definition toUpperCase :: "string \<Rightarrow> string" where
  "toUpperCase s = map upper_char s"

definition pad :: "nat \<Rightarrow> nat \<Rightarrow> string" where
  "pad width n = replicate (width - length (show_nat n)) CHR ''0'' @ show_nat n"

text \<open>
  An instant is a number of milliseconds since the epoch, as \<open>Date.now()\<close> returns it.
  \<open>toISOString\<close> renders it in UTC (proleptic Gregorian calendar, years after 9999
  with a sign and six digits).
\<close>

type_synonym instant = nat

definition toISOString :: "instant \<Rightarrow> string" where
  "toISOString ms =
     (let days = ms div 86400000;
          rest = ms mod 86400000;
          z = days + 719468;
          era = z div 146097;
          doe = z mod 146097;
          yoe = (doe - doe div 1460 + doe div 36524 - doe div 146096) div 365;
          doy = doe - (365 * yoe + yoe div 4 - yoe div 100);
          mp = (5 * doy + 2) div 153;
          d = doy - (153 * mp + 2) div 5 + 1;
          m = (if mp < 10 then mp + 3 else mp - 9);
          y = yoe + era * 400 + (if m \<le> 2 then 1 else 0)
      in (if y \<le> 9999 then pad 4 y else CHR ''+'' # pad 6 y) @ ''-'' @ pad 2 m @ ''-'' @ pad 2 d
         @ ''T'' @ pad 2 (rest div 3600000) @ '':'' @ pad 2 (rest mod 3600000 div 60000)
         @ '':'' @ pad 2 (rest mod 60000 div 1000) @ ''.'' @ pad 3 (rest mod 1000) @ ''Z'')"

section \<open>Values, errors and the data model\<close>

text \<open>A thrown \<open>Error\<close> carries its message.\<close>

datatype error = Error (message: string)

text \<open>
  Values typed \<open>any\<close> in the source (request bodies, cached summaries, response bodies)
  are JSON values. \<open>JSON.stringify\<close> and \<open>JSON.parse\<close> are inverse on them, so a
  serialised body is kept as the value it denotes.
\<close>

datatype json =
    JNull
  | JBool bool
  | JNum real
  | JStr string
  | JArr "json list"
  | JObj "(string \<times> json) list"


text \<open>Reading a member of an object: \<open>None\<close> is \<open>undefined\<close>.\<close>

definition json_get :: "string \<Rightarrow> json \<Rightarrow> json option" where
  "json_get k j = (case j of JObj kvs \<Rightarrow> map_of kvs k | _ \<Rightarrow> None)"

text \<open>\<open>String.prototype.includes\<close>.\<close>

fun includes_str :: "string \<Rightarrow> string \<Rightarrow> bool" where
  "includes_str [] sub = (sub = [])"
| "includes_str (c # cs) sub = (take (length sub) (c # cs) = sub \<or> includes_str cs sub)"

text \<open>\<open>interface BrainMemory\<close> of \<open>_shared/brain-client.ts\<close>; optional fields are options.\<close>

record BrainMemory =
  row_id :: "string option"
  content :: string
  memory_type :: string
  categories :: "string list option"
  importance :: "int option"
  is_system :: "bool option"
  source :: "string option"
  tags :: "string list option"
  embedding :: "real list option"

text \<open>
  A row of the table: the inserted object \<open>{...memory, created_at, updated_at}\<close>. The two
  timestamps are kept as instants (the column compares them as such).
\<close>

record Row = BrainMemory +
  created_at :: instant
  updated_at :: instant

text \<open>\<open>interface TraceEntry\<close> of \<open>_shared/trace.ts\<close>.\<close>

record TraceEntry =
  trace_notation :: string
  action :: string
  result :: string
  timestamp :: string
  agent :: string

text \<open>The two bodies that reach the notification service (REACH).\<close>

datatype reach_msg =
    Escalate int string string
  | Sms string string

text \<open>
  What the speech service does with one request: the transport fails, the service answers
  with a non-success status and a text, or it answers with the audio bytes.
\<close>

datatype tts_outcome =
    TtsFails error
  | TtsRejected string
  | TtsAudio "nat list"

section \<open>The world outside a handler\<close>

text \<open>
  Everything a handler reads or changes besides its arguments: the environment variables,
  the clock, the console, the Supabase tables, the Upstash key/value store and the remote
  services. A remote service answers its \<open>n\<close>-th request as its oracle says at \<open>n\<close>, so any
  pattern of failures is a world. For the services reached by \<open>fetch\<close>, \<open>Some e\<close> is a
  rejected promise (transport failure). For Supabase, \<open>Some e\<close> is the \<open>error\<close> member of
  the answer \<open>{data, error}\<close>: the client library reports failures there and does not throw.
  The clock is the sequence of its readings.
\<close>

record world =
  env :: "string \<Rightarrow> string option"
  clock :: "nat \<Rightarrow> instant"
  clock_reads :: nat
  console :: "string list"
  tables :: "string \<Rightarrow> Row list"
  next_id :: nat
  store_fault :: "nat \<Rightarrow> error option"
  store_reqs :: nat
  fts :: "string \<Rightarrow> string \<Rightarrow> bool"
  kv :: "string \<Rightarrow> (json \<times> nat option) option"
  upstash_fault :: "nat \<Rightarrow> error option"
  upstash_reqs :: nat
  openai :: "nat \<Rightarrow> string \<Rightarrow> error + real list"
  openai_reqs :: nat
  reach_fault :: "nat \<Rightarrow> error option"
  reach_reqs :: nat
  reach_inbox :: "reach_msg list"
  air_fault :: "nat \<Rightarrow> error option"
  air_reqs :: nat
  air_inbox :: "json list"
  eleven :: "nat \<Rightarrow> string \<Rightarrow> tts_outcome"
  eleven_reqs :: nat
  http_get :: "nat \<Rightarrow> string \<Rightarrow> error + nat"
  http_reqs :: nat

text \<open>
  An \<open>async\<close> function: it runs in a world, and either throws (\<open>Inl\<close>) or returns
  (\<open>Inr\<close>), leaving a world behind in both cases.
\<close>

type_synonym 'a io = "world \<Rightarrow> (error + 'a) \<times> world"

definition return_io :: "'a \<Rightarrow> 'a io" where
  "return_io x w = (Inr x, w)"


definition bind_io :: "'a io \<Rightarrow> ('a \<Rightarrow> 'b io) \<Rightarrow> 'b io" where
  "bind_io m k w = (case m w of (Inl e, w') \<Rightarrow> (Inl e, w') | (Inr x, w') \<Rightarrow> k x w')"

definition try_catch :: "'a io \<Rightarrow> (error \<Rightarrow> 'a io) \<Rightarrow> 'a io" where
  "try_catch m h w = (case m w of (Inl e, w') \<Rightarrow> h e w' | (Inr x, w') \<Rightarrow> (Inr x, w'))"

text \<open>A step that cannot throw.\<close>

definition lift_io :: "(world \<Rightarrow> 'a \<times> world) \<Rightarrow> 'a io" where
  "lift_io f w = (case f w of (x, w') \<Rightarrow> (Inr x, w'))"


definition date_now :: "instant io" where
  "date_now w = (Inr (clock w (clock_reads w)), w\<lparr>clock_reads := clock_reads w + 1\<rparr>)"

definition console_log :: "string \<Rightarrow> unit io" where
  "console_log line w = (Inr (), w\<lparr>console := console w @ [line]\<rparr>)"




section \<open>The shared brain client (\<open>_shared/brain-client.ts\<close>)\<close>

datatype SupabaseClient = SupabaseClient string string

text \<open>
  \<open>createClient\<close> of the client library throws when the URL or the key is missing or
  empty; \<open>createBrainClient\<close> hands it the two environment variables.
\<close>

definition createBrainClient :: "SupabaseClient io" where
  "createBrainClient w =
     (case env w ''SUPABASE_URL'' of
        None \<Rightarrow> (Inl (Error ''supabaseUrl is required.''), w)
      | Some url \<Rightarrow>
          if url = [] then (Inl (Error ''supabaseUrl is required.''), w)
          else (case env w ''SUPABASE_SERVICE_ROLE_KEY'' of
                  None \<Rightarrow> (Inl (Error ''supabaseKey is required.''), w)
                | Some key \<Rightarrow>
                    if key = [] then (Inl (Error ''supabaseKey is required.''), w)
                    else (Inr (SupabaseClient url key), w)))"

text \<open>One request to the store: it takes the next answer of the fault oracle.\<close>

definition store_request :: "world \<Rightarrow> error option \<times> world" where
  "store_request w = (store_fault w (store_reqs w), w\<lparr>store_reqs := store_reqs w + 1\<rparr>)"

text \<open>
  \<open>from(table).insert(row).select().single()\<close>: the answer \<open>{data, error}\<close>, as \<open>Inr data\<close>
  or \<open>Inl error\<close>. The store keeps the row as it was sent and gives it an id when it has
  none.
\<close>

definition db_insert :: "SupabaseClient \<Rightarrow> string \<Rightarrow> Row \<Rightarrow> world \<Rightarrow> (error + Row) \<times> world" where
  "db_insert client table row w =
     (case store_request w of
        (Some e, w1) \<Rightarrow> (Inl e, w1)
      | (None, w1) \<Rightarrow>
          (let stored = (case row_id row of
                           None \<Rightarrow> row\<lparr>row_id := Some (show_nat (next_id w1))\<rparr>
                         | Some i \<Rightarrow> row)
           in (Inr stored,
               w1\<lparr>tables := (tables w1)(table := tables w1 table @ [stored]),
                   next_id := next_id w1 + 1\<rparr>)))"

text \<open>
  The orderings the queries ask for. \<open>order('importance', {ascending: false})\<close> is
  \<open>ORDER BY importance DESC\<close>, which puts rows without a value first. The sort is an
  insertion sort that keeps rows it does not distinguish in the order of the table.
\<close>

datatype row_order = Unordered | ImportanceDesc | CreatedAtDesc

definition importance_desc :: "Row \<Rightarrow> Row \<Rightarrow> bool" where
  "importance_desc a b =
     (case importance a of
        None \<Rightarrow> True
      | Some x \<Rightarrow> (case importance b of None \<Rightarrow> False | Some y \<Rightarrow> y \<le> x))"

definition created_at_desc :: "Row \<Rightarrow> Row \<Rightarrow> bool" where
  "created_at_desc a b = (created_at b \<le> created_at a)"

fun insert_by :: "('a \<Rightarrow> 'a \<Rightarrow> bool) \<Rightarrow> 'a \<Rightarrow> 'a list \<Rightarrow> 'a list" where
  "insert_by before x [] = [x]"
| "insert_by before x (y # ys) =
     (if before x y then x # y # ys else y # insert_by before x ys)"

definition sort_by :: "('a \<Rightarrow> 'a \<Rightarrow> bool) \<Rightarrow> 'a list \<Rightarrow> 'a list" where
  "sort_by before xs = foldr (insert_by before) xs []"

fun order_rows :: "row_order \<Rightarrow> Row list \<Rightarrow> Row list" where
  "order_rows Unordered rows = rows"
| "order_rows ImportanceDesc rows = sort_by importance_desc rows"
| "order_rows CreatedAtDesc rows = sort_by created_at_desc rows"

text \<open>
  \<open>from(table).select(...)\<close> with a filter, an ordering and a \<open>limit\<close>: the answer
  \<open>{data, error}\<close>. The answer carries whole rows; the callers read the selected columns.
\<close>

definition db_select ::
  "SupabaseClient \<Rightarrow> string \<Rightarrow> (Row \<Rightarrow> bool) \<Rightarrow> row_order \<Rightarrow> nat
     \<Rightarrow> world \<Rightarrow> (error + Row list) \<times> world" where
  "db_select client table keep ord maxrows w =
     (case store_request w of
        (Some e, w1) \<Rightarrow> (Inl e, w1)
      | (None, w1) \<Rightarrow> (Inr (take maxrows (order_rows ord (filter keep (tables w1 table)))), w1))"

text \<open>\<open>from(table).update({embedding}).eq('id', id)\<close>.\<close>

definition db_update_embedding ::
  "SupabaseClient \<Rightarrow> string \<Rightarrow> string option \<Rightarrow> real list
     \<Rightarrow> world \<Rightarrow> (error + unit) \<times> world" where
  "db_update_embedding client table rid v w =
     (case store_request w of
        (Some e, w1) \<Rightarrow> (Inl e, w1)
      | (None, w1) \<Rightarrow>
          (Inr (),
           w1\<lparr>tables := (tables w1)
                  (table := map (\<lambda>r. if rid \<noteq> None \<and> row_id r = rid
                                       then r\<lparr>embedding := Some v\<rparr> else r)
                                (tables w1 table))\<rparr>))"

definition brainWrite :: "SupabaseClient \<Rightarrow> BrainMemory \<Rightarrow> string \<Rightarrow> Row io" where
  "brainWrite client memory table =
     bind_io date_now (\<lambda>created.
     bind_io date_now (\<lambda>updated.
     (\<lambda>w. case db_insert client table
                 \<lparr>row_id = row_id memory, content = content memory,
                  memory_type = memory_type memory, categories = categories memory,
                  importance = importance memory, is_system = is_system memory,
                  source = source memory, tags = tags memory, embedding = embedding memory,
                  created_at = created, updated_at = updated\<rparr> w of
            (Inl err, w') \<Rightarrow> (Inl err, w')
          | (Inr data, w') \<Rightarrow> (Inr data, w'))))"

text \<open>
  \<open>brainSearch\<close>: the rows whose content matches the query (the match is the text search
  of the store, \<open>fts\<close>), ordered by importance, at most \<open>limit\<close> of them.
\<close>

definition brainSearch :: "SupabaseClient \<Rightarrow> string \<Rightarrow> nat \<Rightarrow> Row list io" where
  "brainSearch client query limit w =
     (case db_select client ''aba_memory'' (\<lambda>r. fts w query (content r)) ImportanceDesc limit w of
        (Inl err, w') \<Rightarrow> (Inl err, w')
      | (Inr data, w') \<Rightarrow> (Inr data, w'))"

section \<open>Routing traces (\<open>_shared/trace.ts\<close>)\<close>

text \<open>
  \<open>createTrace\<close> cannot throw: it reads the clock, logs one line and returns the entry.
  The optional \<open>result\<close> argument is an option; its default is \<open>'OK'\<close>.
\<close>

definition createTrace ::
  "string \<Rightarrow> string \<Rightarrow> string \<Rightarrow> string \<Rightarrow> string option \<Rightarrow> world \<Rightarrow> TraceEntry \<times> world" where
  "createTrace passer agt receiver act res_arg w =
     (let res = (case res_arg of None \<Rightarrow> ''OK'' | Some r \<Rightarrow> r);
          entry = \<lparr>trace_notation = passer @ ''*'' @ agt @ ''*'' @ receiver,
                   action = act,
                   result = res,
                   timestamp = toISOString (clock w (clock_reads w)),
                   agent = agt\<rparr>
      in (entry,
          w\<lparr>clock_reads := clock_reads w + 1,
            console := console w
              @ [''[TRACE] '' @ trace_notation entry @ '' | '' @ act @ '' | '' @ res]\<rparr>))"

text \<open>
  \<open>logTrace\<close> writes the entry to the brain inside a \<open>try\<close>; the \<open>catch\<close> logs the message
  and returns.
\<close>

definition logTrace :: "TraceEntry \<Rightarrow> unit io" where
  "logTrace trace =
     try_catch
       (bind_io createBrainClient (\<lambda>client.
        bind_io date_now (\<lambda>now.
        bind_io (brainWrite client
                   \<lparr>row_id = None,
                    content = ''TRACE ['' @ timestamp trace @ '']: '' @ trace_notation trace
                              @ '' | '' @ action trace @ '' | '' @ result trace,
                    memory_type = ''system'',
                    categories = Some [''trace'', toLowerCase (agent trace)],
                    importance = Some 2,
                    is_system = Some True,
                    source = Some (''trace_'' @ agent trace @ ''_'' @ show_nat now),
                    tags = Some [''trace'', ''routing'', toLowerCase (agent trace)],
                    embedding = None\<rparr>
                   ''aba_memory'') (\<lambda>stored. return_io ()))))
       (\<lambda>err. console_log (''[TRACE] Failed to log: '' @ message err))"

section \<open>The AIR client (\<open>_shared/air-client.ts\<close>)\<close>

text \<open>A \<open>POST\<close> to the AIR report endpoint and one to the REACH escalation endpoint.\<close>

definition fetch_air :: "json \<Rightarrow> unit io" where
  "fetch_air body w =
     (case air_fault w (air_reqs w) of
        Some e \<Rightarrow> (Inl e, w\<lparr>air_reqs := air_reqs w + 1\<rparr>)
      | None \<Rightarrow> (Inr (), w\<lparr>air_reqs := air_reqs w + 1, air_inbox := air_inbox w @ [body]\<rparr>))"

definition fetch_reach :: "reach_msg \<Rightarrow> unit io" where
  "fetch_reach body w =
     (case reach_fault w (reach_reqs w) of
        Some e \<Rightarrow> (Inl e, w\<lparr>reach_reqs := reach_reqs w + 1\<rparr>)
      | None \<Rightarrow> (Inr (), w\<lparr>reach_reqs := reach_reqs w + 1, reach_inbox := reach_inbox w @ [body]\<rparr>))"

definition reportToAIR :: "string \<Rightarrow> string \<Rightarrow> json \<Rightarrow> unit io" where
  "reportToAIR agentId status_str data =
     try_catch
       (bind_io date_now (\<lambda>now.
        fetch_air (JObj [(''agent'', JStr agentId), (''status'', JStr status_str),
                         (''data'', data), (''timestamp'', JStr (toISOString now))])))
       (\<lambda>err. console_log (''['' @ agentId @ ''] Failed to report to AIR: '' @ message err))"

text \<open>\<open>escalateToREACH\<close> awaits the \<open>fetch\<close> with no \<open>try\<close> around it.\<close>

definition escalateToREACH :: "int \<Rightarrow> string \<Rightarrow> string \<Rightarrow> unit io" where
  "escalateToREACH urg msg src = fetch_reach (Escalate urg msg src)"

section \<open>HTTP answers of the handlers\<close>

datatype body = JsonBody json | BinaryBody "nat list"

record Response =
  status :: nat
  headers :: "(string \<times> string) list"
  body :: body

text \<open>\<open>new Response(JSON.stringify(v), {status, headers: {'Content-Type': 'application/json'}})\<close>;
  the status is 200 when none is given.\<close>

text \<open>\<open>await req.json()\<close>: the parsed body, or the error of a body that is not JSON.\<close>

definition req_json :: "error + 'a \<Rightarrow> 'a io" where
  "req_json req w = (req, w)"

definition json_response :: "nat \<Rightarrow> json \<Rightarrow> Response" where
  "json_response code v =
     \<lparr>status = code, headers = [(''Content-Type'', ''application/json'')], body = JsonBody v\<rparr>"

section \<open>SYNC (\<open>sync/index.ts\<close>)\<close>

















section \<open>SAGE (\<open>sage/index.ts\<close>): the embedding backfill\<close>

text \<open>
  \<open>generateEmbedding\<close> sends the first 8000 characters to the embedding service and
  returns \<open>data.data[0].embedding\<close> of the answer. The call throws when the transport
  fails, when the answer is not JSON and when it has no \<open>data[0]\<close>.
\<close>

definition generateEmbedding :: "string \<Rightarrow> real list io" where
  "generateEmbedding txt w =
     (openai w (openai_reqs w) (take 8000 txt), w\<lparr>openai_reqs := openai_reqs w + 1\<rparr>)"

text \<open>The body of the \<open>for\<close> loop of \<open>handleBackfill\<close>, with the counter \<open>processed\<close>.\<close>

fun backfill_loop :: "SupabaseClient \<Rightarrow> Row list \<Rightarrow> nat \<Rightarrow> world \<Rightarrow> nat \<times> world" where
  "backfill_loop client [] processed w = (processed, w)"
| "backfill_loop client (memory # rest) processed w =
     (case try_catch
             (bind_io (generateEmbedding (content memory)) (\<lambda>emb.
              bind_io (lift_io (db_update_embedding client ''aba_memory'' (row_id memory) emb)) (\<lambda>u.
              return_io True)))
             (\<lambda>err. bind_io (console_log (''Failed to embed ''
                                           @ (case row_id memory of None \<Rightarrow> ''undefined'' | Some i \<Rightarrow> i)
                                           @ '': '' @ message err)) (\<lambda>u.
                     return_io False))
             w of
        (Inr True, w') \<Rightarrow> backfill_loop client rest (processed + 1) w'
      | (other, w') \<Rightarrow> backfill_loop client rest processed w')"

definition handleBackfill :: "SupabaseClient \<Rightarrow> nat \<Rightarrow> json io" where
  "handleBackfill client batchSize =
     bind_io (lift_io (createTrace ''CRON'' ''SAGE'' ''SUPABASE'' ''Starting embedding backfill''
                         (Some ''BACKFILLING''))) (\<lambda>trace.
     bind_io (db_select client ''aba_memory'' (\<lambda>r. embedding r = None) Unordered batchSize)
       (\<lambda>memories.
     bind_io (lift_io (backfill_loop client memories 0)) (\<lambda>processed.
     bind_io (logTrace (trace\<lparr>result := ''Processed '' @ show_nat processed @ ''/''
                                          @ show_nat (length memories)\<rparr>)) (\<lambda>u.
     return_io (JObj [(''agent'', JStr ''Strategic Assessment and Governance Engine (SAGE)''),
                      (''status'', JStr ''complete''),
                      (''action'', JStr ''backfill''),
                      (''processed'', JNum (real processed)),
                      (''total'', JNum (real (length memories)))])))))"

section \<open>LUKE (\<open>luke/index.ts\<close>): storing and escalating action items\<close>

record ActionItem =
  item_text :: string
  item_type :: string
  urgency :: int
  confidence :: real

record LUKERequest =
  luke_content :: "string option"
  transcript_id :: "string option"
  luke_source :: "string option"

text \<open>
  The \<open>for\<close> loop of the handler over the extracted items: each item is written to the
  brain, and an item whose urgency is at least 8 is escalated to REACH. Neither call is
  inside a \<open>try\<close> of the loop, so the first failure leaves the loop.
\<close>

fun store_items :: "SupabaseClient \<Rightarrow> string \<Rightarrow> ActionItem list \<Rightarrow> unit io" where
  "store_items client src [] = return_io ()"
| "store_items client src (item # rest) =
     bind_io date_now (\<lambda>ms.
     bind_io (brainWrite client
                \<lparr>row_id = None,
                 content = ''ACTION ITEM ['' @ toUpperCase (item_type item) @ ''] (urgency ''
                           @ show_int (urgency item) @ ''/10): '' @ item_text item,
                 memory_type = ''system'',
                 categories = Some [''action_item'', item_type item, ''luke''],
                 importance = Some (urgency item),
                 is_system = Some True,
                 source = Some (''luke_'' @ src @ ''_'' @ show_nat ms),
                 tags = Some [''action_needed'', ''luke'', item_type item, src],
                 embedding = None\<rparr>
                ''aba_memory'') (\<lambda>stored.
     bind_io (if 8 \<le> urgency item
              then bind_io (escalateToREACH (urgency item)
                              (''URGENT '' @ toUpperCase (item_type item) @ '': '' @ item_text item)
                              ''luke_extract'') (\<lambda>u.
                   bind_io (lift_io (createTrace ''LUKE'' ''REACH'' ''ESCALATE''
                                       (''Urgent: '' @ take 30 (item_text item)) (Some ''ESCALATED'')))
                     (\<lambda>t. return_io ()))
              else return_io ()) (\<lambda>u.
     store_items client src rest)))"

definition item_json :: "ActionItem \<Rightarrow> json" where
  "item_json item =
     JObj [(''text'', JStr (item_text item)), (''type'', JStr (item_type item)),
           (''urgency'', JNum (real_of_int (urgency item))),
           (''confidence'', JNum (confidence item))]"

text \<open>
  The handler. \<open>extractActionItems\<close> (the regular expressions of lines 71 to 117) is a
  parameter: it maps the content to the items, sorted by urgency. The request is the
  outcome of \<open>req.json()\<close>.
\<close>

definition serve_luke ::
  "(string \<Rightarrow> ActionItem list) \<Rightarrow> error + LUKERequest \<Rightarrow> Response io" where
  "serve_luke extractActionItems req =
     try_catch
       (bind_io (req_json req) (\<lambda>body.
        bind_io createBrainClient (\<lambda>client.
        let content_str = (case luke_content body of None \<Rightarrow> [] | Some c \<Rightarrow> c);
            src = (case luke_source body of None \<Rightarrow> ''manual''
                   | Some s \<Rightarrow> if s = [] then ''manual'' else s) in
        if length content_str < 10
        then return_io (json_response 200
               (JObj [(''agent'', JStr ''Listening and Understanding Key Extracts (LUKE)''),
                      (''status'', JStr ''skipped''),
                      (''reason'', JStr ''Content too short'')]))
        else
          bind_io (lift_io (createTrace (if src = ''omi'' then ''OMI'' else ''AIR'') ''LUKE'' ''AIR''
                              (''Extracting from '' @ show_nat (length content_str) @ '' chars'')
                              (Some ''EXTRACTING''))) (\<lambda>trace.
          let items = extractActionItems content_str in
          bind_io (store_items client src items) (\<lambda>u.
          bind_io (logTrace (trace\<lparr>result := ''Extracted '' @ show_nat (length items)
                                               @ '' items''\<rparr>)) (\<lambda>u.
          let res = JObj [(''agent'', JStr ''Listening and Understanding Key Extracts (LUKE)''),
                          (''status'', JStr ''complete''),
                          (''source'', JStr src),
                          (''contentLength'', JNum (real (length content_str))),
                          (''itemsExtracted'', JNum (real (length items))),
                          (''urgentItems'', JNum (real (length (filter (\<lambda>i. 8 \<le> urgency i) items)))),
                          (''items'', JArr (map item_json (take 20 items)))] in
          bind_io (reportToAIR ''LUKE'' ''complete'' res) (\<lambda>u.
          return_io (json_response 200 res))))))))
       (\<lambda>err.
          let errorResult = JObj [(''agent'', JStr ''Listening and Understanding Key Extracts (LUKE)''),
                                  (''status'', JStr ''error''),
                                  (''error'', JStr (message err))] in
          bind_io (reportToAIR ''LUKE'' ''error'' errorResult) (\<lambda>u.
          return_io (json_response 500 errorResult)))"

section \<open>VARA (\<open>vara/index.ts\<close>): text to speech\<close>









section \<open>SHADOW (\<open>shadow/index.ts\<close>): the audit\<close>

record SHADOWCheck =
  name :: string
  pass :: bool
  claimed :: "string option"
  reality :: "string option"
  error :: "string option"
  latencyMs :: "int option"









section \<open>Predicates of the statements\<close>

text \<open>
  \<open>returns m P\<close>: in every world \<open>m\<close> returns, and what it returns satisfies \<open>P\<close>.
  \<open>if_returns m P\<close>: in every world, what \<open>m\<close> returns, if it does, satisfies \<open>P\<close>.
\<close>

definition returns :: "'a io \<Rightarrow> ('a \<Rightarrow> bool) \<Rightarrow> bool" where
  "returns m P = (\<forall>w. case fst (m w) of Inl e \<Rightarrow> False | Inr x \<Rightarrow> P x)"

definition if_returns :: "'a io \<Rightarrow> ('a \<Rightarrow> bool) \<Rightarrow> bool" where
  "if_returns m P = (\<forall>w. case fst (m w) of Inl e \<Rightarrow> True | Inr x \<Rightarrow> P x)"









text \<open>
  What a backfill run has to count. The records it selects in a world are the first
  \<open>batchSize\<close> rows with no embedding. The \<open>i\<close>-th embedding call of the run succeeds when
  the service, at its request number \<open>openai_reqs w + i\<close>, answers the first 8000 characters
  of the record with a vector. \<open>embedded_count w k memories\<close> counts the successes over the
  records, the first of which is served by call \<open>k\<close>.
\<close>

definition backfill_selection :: "world \<Rightarrow> nat \<Rightarrow> Row list" where
  "backfill_selection w batchSize =
     take batchSize (filter (\<lambda>r. embedding r = None) (tables w ''aba_memory''))"

definition embed_succeeds :: "world \<Rightarrow> nat \<Rightarrow> Row \<Rightarrow> bool" where
  "embed_succeeds w i memory =
     (case openai w (openai_reqs w + i) (take 8000 (content memory)) of
        Inl e \<Rightarrow> False
      | Inr v \<Rightarrow> True)"

definition embedded_count :: "world \<Rightarrow> nat \<Rightarrow> Row list \<Rightarrow> nat" where
  "embedded_count w k memories =
     length (filter (\<lambda>(i, memory). embed_succeeds w i memory) (enumerate k memories))"





section \<open>Example worlds and inputs\<close>

text \<open>
  A healthy world: Supabase is configured and answers, the table is empty, every remote
  service answers, Upstash is not configured. The text search of this store is a
  case-insensitive substring test.
\<close>

definition world0 :: world where
  "world0 =
     \<lparr>env = [''SUPABASE_URL'' \<mapsto> ''https://brain.example'',
             ''SUPABASE_SERVICE_ROLE_KEY'' \<mapsto> ''service-key''],
      clock = (\<lambda>n. 1762111380000 + n),
      clock_reads = 0,
      console = [],
      tables = (\<lambda>t. []),
      next_id = 1,
      store_fault = (\<lambda>n. None),
      store_reqs = 0,
      fts = (\<lambda>q c. includes_str (toLowerCase c) (toLowerCase q)),
      kv = (\<lambda>k. None),
      upstash_fault = (\<lambda>n. None),
      upstash_reqs = 0,
      openai = (\<lambda>n t. Inr [0]),
      openai_reqs = 0,
      reach_fault = (\<lambda>n. None),
      reach_reqs = 0,
      reach_inbox = [],
      air_fault = (\<lambda>n. None),
      air_reqs = 0,
      air_inbox = [],
      eleven = (\<lambda>n t. TtsAudio [73, 68, 51]),
      eleven_reqs = 0,
      http_get = (\<lambda>n u. Inr 200),
      http_reqs = 0\<rparr>"

definition client0 :: SupabaseClient where
  "client0 = SupabaseClient ''https://brain.example'' ''service-key''"

text \<open>A record whose importance is out of range.\<close>

definition memory_importance_11 :: BrainMemory where
  "memory_importance_11 =
     \<lparr>row_id = None, content = ''JOB ALERT: Widget Co'', memory_type = ''system'',
      categories = None, importance = Some 11, is_system = None, source = None,
      tags = Some [''job_alert''], embedding = None\<rparr>"

text \<open>Two action items, at the threshold and just below it.\<close>

definition item_urgency_8 :: ActionItem where
  "item_urgency_8 =
     \<lparr>item_text = ''Dana about the contract'', item_type = ''meeting'', urgency = 8,
      confidence = 0.8\<rparr>"

definition item_urgency_7 :: ActionItem where
  "item_urgency_7 =
     \<lparr>item_text = ''the dentist'', item_type = ''call'', urgency = 7, confidence = 0.8\<rparr>"

text \<open>
  The world in which REACH cannot be reached, and a request to LUKE. On the content
  \<open>urgent: call the bank today\<close> the patterns of \<open>extractActionItems\<close> yield two items: the
  pattern \<open>call\<close> captures \<open>the bank today\<close> (base urgency 7, plus 2 for \<open>today\<close>), the pattern
  \<open>urgent\<close> captures \<open>call the bank today\<close> (base urgency 10, capped at 10); the sort puts the
  second first.
\<close>

definition world_reach_down :: world where
  "world_reach_down = world0\<lparr>reach_fault := (\<lambda>n. Some (Error ''error sending request''))\<rparr>"

definition extract_example :: "string \<Rightarrow> ActionItem list" where
  "extract_example c =
     (if c = ''urgent: call the bank today''
      then [\<lparr>item_text = ''call the bank today'', item_type = ''urgent'', urgency = 10,
             confidence = 0.8\<rparr>,
            \<lparr>item_text = ''the bank today'', item_type = ''call'', urgency = 9,
             confidence = 0.8\<rparr>]
      else [])"

definition request_example :: "error + LUKERequest" where
  "request_example =
     Inr \<lparr>luke_content = Some ''urgent: call the bank today'', transcript_id = None,
          luke_source = None\<rparr>"



text \<open>
  Two rows of equal importance, the older first in the table; and a row of importance 3
  before the job alert of importance 7. All four contents match the query \<open>job\<close>.
\<close>

definition row_old_5 :: Row where
  "row_old_5 =
     \<lparr>row_id = Some ''1'', content = ''job fair notes'', memory_type = ''user'',
      categories = None, importance = Some 5, is_system = None, source = None,
      tags = None, embedding = None, created_at = 1000, updated_at = 1000\<rparr>"

definition row_new_5 :: Row where
  "row_new_5 =
     \<lparr>row_id = Some ''2'', content = ''job offer'', memory_type = ''user'',
      categories = None, importance = Some 5, is_system = None, source = None,
      tags = None, embedding = None, created_at = 2000, updated_at = 2000\<rparr>"

definition row_low_3 :: Row where
  "row_low_3 =
     \<lparr>row_id = Some ''3'', content = ''job board bookmarks'', memory_type = ''user'',
      categories = None, importance = Some 3, is_system = None, source = None,
      tags = None, embedding = None, created_at = 3000, updated_at = 3000\<rparr>"

definition row_alert_7 :: Row where
  "row_alert_7 =
     \<lparr>row_id = Some ''4'', content = ''JOB ALERT: Widget Co'', memory_type = ''system'',
      categories = None, importance = Some 7, is_system = None, source = None,
      tags = Some [''job_alert''], embedding = None, created_at = 4000, updated_at = 4000\<rparr>"

definition world_ties :: world where
  "world_ties =
     world0\<lparr>tables := (\<lambda>t. if t = ''aba_memory'' then [row_old_5, row_new_5] else [])\<rparr>"

definition world_jobs :: world where
  "world_jobs =
     world0\<lparr>tables := (\<lambda>t. if t = ''aba_memory'' then [row_low_3, row_alert_7] else [])\<rparr>"

text \<open>
  Ten rows without embedding; the embedding service fails on its requests 2, 5 and 7
  (the third, sixth and eighth call) and answers the others.
\<close>

definition backfill_row :: "nat \<Rightarrow> Row" where
  "backfill_row n =
     \<lparr>row_id = Some (show_nat n), content = ''memory '' @ show_nat n, memory_type = ''user'',
      categories = None, importance = Some 5, is_system = None, source = None,
      tags = None, embedding = None, created_at = 1000 + n, updated_at = 1000 + n\<rparr>"

definition world_backfill :: world where
  "world_backfill =
     world0\<lparr>tables := (\<lambda>t. if t = ''aba_memory''
                           then map backfill_row [1, 2, 3, 4, 5, 6, 7, 8, 9, 10] else []),
            openai := (\<lambda>n t. if n = 2 \<or> n = 5 \<or> n = 7
                              then Inl (Error ''embedding service unavailable'')
                              else Inr [0.25, 0.5])\<rparr>"



section \<open>Basic facts\<close>

lemma show_nat_digit: "n < 10 \<Longrightarrow> show_nat n = [digit_char n]"
  by (simp add: show_nat.simps)





lemma returns_try_catch:
  assumes "if_returns m P" and "\<And>e. returns (h e) P"
  shows "returns (try_catch m h) P"
  unfolding returns_def
proof
  fix w
  obtain r w' where mw: "m w = (r, w')" by (cases "m w")
  show "case fst (try_catch m h w) of Inl e \<Rightarrow> False | Inr y \<Rightarrow> P y"
  proof (cases r)
    case (Inl e)
    with assms(2) [of e] show ?thesis by (simp add: try_catch_def mw returns_def)
  next
    case (Inr x)
    from assms(1) have "case fst (m w) of Inl e \<Rightarrow> True | Inr x \<Rightarrow> P x"
      by (simp add: if_returns_def)
    with Inr have "P x" by (simp add: mw)
    with Inr show ?thesis by (simp add: try_catch_def mw)
  qed
qed




lemma console_log_returns: "returns (console_log line) (\<lambda>u. True)"
  by (simp add: returns_def console_log_def)

lemma brainWrite_accepted:
  "store_fault w (store_reqs w) = None \<Longrightarrow>
   brainWrite client memory table w =
     (let stored = \<lparr>row_id = (case row_id memory of None \<Rightarrow> Some (show_nat (next_id w)) | Some i \<Rightarrow> Some i),
                     content = content memory,
                     memory_type = memory_type memory, categories = categories memory,
                     importance = importance memory, is_system = is_system memory,
                     source = source memory, tags = tags memory, embedding = embedding memory,
                     created_at = clock w (clock_reads w), updated_at = clock w (clock_reads w + 1)\<rparr>
      in (Inr stored,
          w\<lparr>clock_reads := clock_reads w + 2, store_reqs := store_reqs w + 1,
            tables := (tables w)(table := tables w table @ [stored]),
            next_id := next_id w + 1\<rparr>))"
  by (simp add: brainWrite_def bind_io_def date_now_def db_insert_def store_request_def Let_def
           split: option.splits)

section \<open>The brain client\<close>

text \<open>
  C1 (as the code has it). \<open>brainWrite\<close> does not clamp: when the store accepts the
  insert, the stored record has the importance of the record passed in, whatever it is,
  together with its content and the two timestamps read from the clock, and it is the
  row appended to the table.
\<close>

theorem brainWrite_stores_importance_as_given:
  "store_fault w (store_reqs w) = None \<Longrightarrow>
     (case fst (brainWrite client memory table w) of
        Inl e \<Rightarrow> False
      | Inr stored \<Rightarrow>
          importance stored = importance memory
          \<and> content stored = content memory
          \<and> created_at stored = clock w (clock_reads w)
          \<and> updated_at stored = clock w (clock_reads w + 1)
          \<and> tables (snd (brainWrite client memory table w)) table = tables w table @ [stored])"
  by (simp add: brainWrite_accepted Let_def)

text \<open>
  C1, counterexample. A record with importance 11 is stored with importance 11, outside
  the interval from 1 to 10. The same run is the witness of the theorem above.
\<close>

theorem brainWrite_importance_11_counterexample:
  "fst (brainWrite client0 memory_importance_11 ''aba_memory'' world0) =
     Inr \<lparr>row_id = Some ''1'', content = ''JOB ALERT: Widget Co'', memory_type = ''system'',
          categories = None, importance = Some 11, is_system = None, source = None,
          tags = Some [''job_alert''], embedding = None,
          created_at = 1762111380000, updated_at = 1762111380001\<rparr>"
  by (simp add: brainWrite_accepted world0_def memory_importance_11_def Let_def show_nat_digit digit_char_def)

theorem brainWrite_stores_importance_witness:
  "store_fault world0 (store_reqs world0) = None
   \<and> (case fst (brainWrite client0 memory_importance_11 ''aba_memory'' world0) of
        Inl e \<Rightarrow> False
      | Inr stored \<Rightarrow> importance stored = Some 11)"
  using brainWrite_stores_importance_as_given
          [where w = world0 and client = client0 and memory = memory_importance_11
             and table = "''aba_memory''"]
  by (simp add: world0_def memory_importance_11_def split: sum.splits)

section \<open>Routing traces\<close>


section \<open>Escalation\<close>

text \<open>
  C3, counterexample. \<open>escalateToREACH\<close> has no threshold of its own: called with urgency
  7 it sends one request to the channel, which receives it.
\<close>

theorem escalateToREACH_urgency_7_counterexample:
  "reach_reqs world0 = 0
   \<and> reach_reqs (snd (escalateToREACH 7 ''URGENT CALL: the dentist'' ''luke_extract'' world0)) = 1
   \<and> reach_inbox (snd (escalateToREACH 7 ''URGENT CALL: the dentist'' ''luke_extract'' world0))
       = [Escalate 7 ''URGENT CALL: the dentist'' ''luke_extract'']"
  by (simp add: escalateToREACH_def fetch_reach_def world0_def)

text \<open>
  C3 (as the code has it). The threshold 8 is in the caller. \<open>escalateToREACH\<close> sends
  exactly one request to the channel for every urgency. The loop of the LUKE handler,
  run on one item that the store accepts, sends exactly one request when the urgency of
  the item is 8 or more and none when it is less (so one for urgency 8, none for 7).
\<close>

theorem escalation_threshold_is_in_the_caller:
  assumes "store_fault w (store_reqs w) = None"
  shows "reach_reqs (snd (escalateToREACH urg msg src w)) = reach_reqs w + 1
         \<and> reach_reqs (snd (store_items client src [item] w))
             = reach_reqs w + (if 8 \<le> urgency item then 1 else 0)"
  using assms
  by (simp add: escalateToREACH_def fetch_reach_def bind_io_def date_now_def
        brainWrite_accepted Let_def lift_io_def createTrace_def return_io_def
        split: option.splits)

theorem escalation_threshold_witness:
  "store_fault world0 (store_reqs world0) = None
   \<and> reach_reqs (snd (store_items client0 ''manual'' [item_urgency_8] world0)) = 1
   \<and> reach_reqs (snd (store_items client0 ''manual'' [item_urgency_7] world0)) = 0"
  using escalation_threshold_is_in_the_caller
          [where w = world0 and client = client0 and src = "''manual''" and item = item_urgency_8]
        escalation_threshold_is_in_the_caller
          [where w = world0 and client = client0 and src = "''manual''" and item = item_urgency_7]
  by (simp add: world0_def item_urgency_8_def item_urgency_7_def)

text \<open>
  When the request to REACH fails, \<open>escalateToREACH\<close> throws the transport error to its
  caller and logs nothing.
\<close>

lemma escalateToREACH_throws:
  "reach_fault w (reach_reqs w) = Some e \<Longrightarrow>
   fst (escalateToREACH urg msg src w) = Inl e
   \<and> console (snd (escalateToREACH urg msg src w)) = console w"
  by (simp add: escalateToREACH_def fetch_reach_def)

text \<open>
  C2, evaluated. The LUKE handler receives \<open>urgent: call the bank today\<close> while REACH
  cannot be reached. The first item is written to the brain, the escalation throws out of
  \<open>escalateToREACH\<close> and out of the loop, the second item is never written, and the
  handler answers 500 with the transport error. With REACH reachable the same request is
  answered 200, both items are written (and one trace row) and both are escalated.
\<close>

theorem serve_luke_reach_down:
  "fst (serve_luke extract_example request_example world_reach_down)
     = Inr (json_response 500
              (JObj [(''agent'', JStr ''Listening and Understanding Key Extracts (LUKE)''),
                     (''status'', JStr ''error''),
                     (''error'', JStr ''error sending request'')]))
   \<and> length (tables (snd (serve_luke extract_example request_example world_reach_down)) ''aba_memory'') = 1
   \<and> reach_inbox (snd (serve_luke extract_example request_example world_reach_down)) = []
   \<and> map_sum id status (fst (serve_luke extract_example request_example world0)) = Inr 200
   \<and> length (tables (snd (serve_luke extract_example request_example world0)) ''aba_memory'') = 3
   \<and> length (reach_inbox (snd (serve_luke extract_example request_example world0))) = 2"
  by (simp add: serve_luke_def request_example_def extract_example_def world_reach_down_def world0_def
        try_catch_def bind_io_def return_io_def lift_io_def createBrainClient_def createTrace_def
        date_now_def brainWrite_accepted Let_def escalateToREACH_def fetch_reach_def req_json_def
        reportToAIR_def fetch_air_def json_response_def logTrace_def)

section \<open>The audit\<close>









section \<open>Answers of the handlers\<close>














section \<open>Text search\<close>

lemma set_insert_by: "set (insert_by before x ys) = insert x (set ys)"
  by (induction ys) auto

lemma sorted_wrt_insert_by:
  assumes total: "\<And>a b. before a b \<or> before b a"
      and trans: "\<And>a b c. before a b \<Longrightarrow> before b c \<Longrightarrow> before a c"
  shows "sorted_wrt before ys \<Longrightarrow> sorted_wrt before (insert_by before x ys)"
proof (induction ys)
  case Nil
  then show ?case by simp
next
  case (Cons y ys)
  show ?case
  proof (cases "before x y")
    case True
    with Cons.prems trans show ?thesis by auto
  next
    case False
    with total [of x y] have yx: "before y x" by simp
    with Cons False show ?thesis by (auto simp: set_insert_by)
  qed
qed

lemma sorted_wrt_sort_by:
  assumes total: "\<And>a b. before a b \<or> before b a"
      and trans: "\<And>a b c. before a b \<Longrightarrow> before b c \<Longrightarrow> before a c"
  shows "sorted_wrt before (sort_by before xs)"
  unfolding sort_by_def
  by (induction xs) (simp_all add: sorted_wrt_insert_by [OF total trans])

lemma importance_desc_total: "importance_desc a b \<or> importance_desc b a"
  by (auto simp: importance_desc_def split: option.splits)

lemma importance_desc_trans:
  "importance_desc a b \<Longrightarrow> importance_desc b c \<Longrightarrow> importance_desc a c"
  by (auto simp: importance_desc_def split: option.splits)

lemma sorted_importance_desc: "sorted_wrt importance_desc (sort_by importance_desc rows)"
  by (rule sorted_wrt_sort_by [OF importance_desc_total importance_desc_trans])

lemma sorted_wrt_take: "sorted_wrt R xs \<Longrightarrow> sorted_wrt R (take n xs)"
  by (metis append_take_drop_id sorted_wrt_append)

lemma brainSearch_accepted:
  "store_fault w (store_reqs w) = None \<Longrightarrow>
   fst (brainSearch client query limit w) =
     Inr (take limit (sort_by importance_desc
            (filter (\<lambda>r. fts w query (content r)) (tables w ''aba_memory''))))"
  by (simp add: brainSearch_def db_select_def store_request_def)

text \<open>
  C4 (as the code has it). When the store answers, \<open>brainSearch\<close> returns the first
  \<open>limit\<close> of the matching rows ordered by importance descending (rows without an
  importance first). The result is sorted by importance, and a row of importance 3 never
  comes before a row of importance 7. The query asks for no second ordering: rows of equal
  importance come in the order in which the store yields them.
\<close>

theorem brainSearch_orders_by_importance:
  assumes "store_fault w (store_reqs w) = None"
  shows "case fst (brainSearch client query limit w) of
           Inl e \<Rightarrow> False
         | Inr rows \<Rightarrow>
             rows = take limit (sort_by importance_desc
                      (filter (\<lambda>r. fts w query (content r)) (tables w ''aba_memory'')))
             \<and> sorted_wrt importance_desc rows
             \<and> (\<forall>i j. i < j \<longrightarrow> j < length rows \<longrightarrow> importance (rows ! j) = Some 7
                        \<longrightarrow> importance (rows ! i) \<noteq> Some 3)"
proof -
  let ?rows = "take limit (sort_by importance_desc
                 (filter (\<lambda>r. fts w query (content r)) (tables w ''aba_memory'')))"
  have sorted: "sorted_wrt importance_desc ?rows"
    by (rule sorted_wrt_take [OF sorted_importance_desc])
  have "importance (?rows ! i) \<noteq> Some 3"
    if "i < j" "j < length ?rows" "importance (?rows ! j) = Some 7" for i j
  proof
    assume three: "importance (?rows ! i) = Some 3"
    from sorted that(1,2) have "importance_desc (?rows ! i) (?rows ! j)"
      by (rule sorted_wrt_nth_less)
    with three that(3) show False by (simp add: importance_desc_def)
  qed
  with sorted show ?thesis
    by (simp add: brainSearch_accepted [OF assms])
qed

text \<open>
  C4, counterexample. Two matching rows of importance 5: the older one is returned first,
  not the most recent one.
\<close>

theorem brainSearch_ties_counterexample:
  "fst (brainSearch client0 ''job'' 10 world_ties) = Inr [row_old_5, row_new_5]
   \<and> importance row_old_5 = importance row_new_5
   \<and> created_at row_old_5 < created_at row_new_5"
  by (simp add: brainSearch_accepted world_ties_def world0_def row_old_5_def row_new_5_def
        sort_by_def importance_desc_def toLowerCase_def lower_char_def ascii_upper_def
        ascii_lower_def)

theorem brainSearch_orders_by_importance_witness:
  "store_fault world_jobs (store_reqs world_jobs) = None
   \<and> fst (brainSearch client0 ''job'' 10 world_jobs) = Inr [row_alert_7, row_low_3]"
  using brainSearch_orders_by_importance
          [where w = world_jobs and client = client0 and query = "''job''" and limit = 10]
  by (simp add: world_jobs_def world0_def row_alert_7_def row_low_3_def
        sort_by_def importance_desc_def toLowerCase_def lower_char_def ascii_upper_def
        ascii_lower_def split: sum.splits)

section \<open>The embedding backfill\<close>

lemma bind_io_returned: "fst (m w) = Inr x \<Longrightarrow> bind_io m k w = k x (snd (m w))"
  by (cases "m w") (simp add: bind_io_def)

lemma if_returns_True: "if_returns m (\<lambda>x. True)"
  by (simp add: if_returns_def split: sum.splits)

lemma logTrace_returns: "returns (logTrace t) (\<lambda>u. True)"
  unfolding logTrace_def
  by (intro returns_try_catch if_returns_True console_log_returns)

lemma logTrace_result: "fst (logTrace t w) = Inr ()"
proof -
  from logTrace_returns [of t] have "case fst (logTrace t w) of Inl e \<Rightarrow> False | Inr x \<Rightarrow> True"
    by (simp add: returns_def)
  then show ?thesis by (cases "fst (logTrace t w)") simp_all
qed

lemma bind_logTrace: "bind_io (logTrace t) k w = k () (snd (logTrace t w))"
  by (rule bind_io_returned [OF logTrace_result])

lemma backfill_step:
  "try_catch
     (bind_io (generateEmbedding txt) (\<lambda>emb.
      bind_io (lift_io (db_update_embedding client table rid emb)) (\<lambda>u.
      return_io True)))
     (\<lambda>err. bind_io (console_log (line err)) (\<lambda>u. return_io False)) w = (r, w')
   \<Longrightarrow> openai w' = openai w \<and> openai_reqs w' = openai_reqs w + 1
       \<and> r = Inr (case openai w (openai_reqs w) (take 8000 txt) of Inl e \<Rightarrow> False | Inr v \<Rightarrow> True)"
  by (auto simp: try_catch_def bind_io_def generateEmbedding_def lift_io_def
        db_update_embedding_def store_request_def return_io_def console_log_def
        split: sum.splits option.splits prod.splits)

lemma backfill_loop_count:
  "openai w' = openai w \<Longrightarrow> openai_reqs w' = openai_reqs w + k \<Longrightarrow>
   fst (backfill_loop client memories processed w') = processed + embedded_count w k memories"
proof (induction memories arbitrary: processed w' k)
  case Nil
  then show ?case by (simp add: embedded_count_def)
next
  case (Cons memory rest)
  let ?step = "try_catch
     (bind_io (generateEmbedding (content memory)) (\<lambda>emb.
      bind_io (lift_io (db_update_embedding client ''aba_memory'' (row_id memory) emb)) (\<lambda>u.
      return_io True)))
     (\<lambda>err. bind_io (console_log (''Failed to embed ''
                                   @ (case row_id memory of None \<Rightarrow> ''undefined'' | Some i \<Rightarrow> i)
                                   @ '': '' @ message err)) (\<lambda>u.
             return_io False))"
  obtain r w'' where step: "?step w' = (r, w'')" by (cases "?step w'")
  from backfill_step [OF step] Cons.prems
  have frame: "openai w'' = openai w" "openai_reqs w'' = openai_reqs w + Suc k"
    and r: "r = Inr (embed_succeeds w k memory)"
    by (simp_all add: embed_succeeds_def)
  have rest: "fst (backfill_loop client rest p w'') = p + embedded_count w (Suc k) rest" for p
    by (rule Cons.IH [OF frame])
  show ?case
  proof (cases "embed_succeeds w k memory")
    case True
    with step r rest [of "processed + 1"] show ?thesis
      by (simp add: embedded_count_def)
  next
    case False
    with step r rest [of processed] show ?thesis
      by (simp add: embedded_count_def)
  qed
qed

lemma embedded_count_le: "embedded_count w k memories \<le> length memories"
  unfolding embedded_count_def
  by (rule order_trans [OF length_filter_le]) simp

text \<open>
  C5. When the store answers the selection, \<open>handleBackfill\<close> returns (no exception leaves
  it), whatever the embedding calls, the updates and the trace write do. \<open>total\<close> is the
  number of selected records, at most \<open>batchSize\<close>; \<open>processed\<close> is the number of selected
  records whose embedding call succeeded, so a failed call skips its record only, and
  \<open>processed\<close> is at most \<open>total\<close>.
\<close>

theorem handleBackfill_counts:
  assumes "store_fault w (store_reqs w) = None"
  shows "case fst (handleBackfill client batchSize w) of
           Inl e \<Rightarrow> False
         | Inr res \<Rightarrow>
             json_get ''processed'' res
               = Some (JNum (real (embedded_count w 0 (backfill_selection w batchSize))))
             \<and> json_get ''total'' res
               = Some (JNum (real (length (backfill_selection w batchSize))))
             \<and> embedded_count w 0 (backfill_selection w batchSize)
                 \<le> length (backfill_selection w batchSize)
             \<and> length (backfill_selection w batchSize) \<le> batchSize"
proof -
  let ?sel = "backfill_selection w batchSize"
  obtain trace w1 where t: "createTrace ''CRON'' ''SAGE'' ''SUPABASE'' ''Starting embedding backfill''
                              (Some ''BACKFILLING'') w = (trace, w1)"
    by (cases "createTrace ''CRON'' ''SAGE'' ''SUPABASE'' ''Starting embedding backfill''
                 (Some ''BACKFILLING'') w")
  then have w1: "w1 = w\<lparr>clock_reads := clock_reads w + 1,
                        console := console w1\<rparr>"
    by (auto simp: createTrace_def Let_def)
  have sel: "db_select client ''aba_memory'' (\<lambda>r. embedding r = None) Unordered batchSize w1
               = (Inr ?sel, w1\<lparr>store_reqs := Suc (store_reqs w1)\<rparr>)"
    using assms by (subst (1 2 3) w1) (simp add: db_select_def store_request_def backfill_selection_def)
  let ?w2 = "w1\<lparr>store_reqs := Suc (store_reqs w1)\<rparr>"
  have w2: "openai ?w2 = openai w" "openai_reqs ?w2 = openai_reqs w + 0"
    by (subst w1, simp)+
  have count: "fst (backfill_loop client ?sel 0 ?w2) = embedded_count w 0 ?sel"
    using backfill_loop_count [OF w2, of client ?sel 0] by simp
  obtain p w3 where loop: "backfill_loop client ?sel 0 ?w2 = (p, w3)"
    by (cases "backfill_loop client ?sel 0 ?w2")
  with count have p: "p = embedded_count w 0 ?sel" by simp
  have "handleBackfill client batchSize w =
          (Inr (JObj [(''agent'', JStr ''Strategic Assessment and Governance Engine (SAGE)''),
                      (''status'', JStr ''complete''),
                      (''action'', JStr ''backfill''),
                      (''processed'', JNum (real p)),
                      (''total'', JNum (real (length ?sel)))]),
           snd (logTrace (trace\<lparr>result := ''Processed '' @ show_nat p @ ''/''
                                            @ show_nat (length ?sel)\<rparr>) w3))"
  proof -
    have s1: "lift_io (createTrace ''CRON'' ''SAGE'' ''SUPABASE'' ''Starting embedding backfill''
                         (Some ''BACKFILLING'')) w = (Inr trace, w1)"
      by (simp add: lift_io_def t)
    have s3: "lift_io (backfill_loop client ?sel 0) ?w2 = (Inr p, w3)"
      by (simp add: lift_io_def loop)
    show ?thesis
      by (simp add: handleBackfill_def bind_io_def s1 sel s3 return_io_def
            bind_logTrace [unfolded bind_io_def])
  qed
  moreover have "length ?sel \<le> batchSize"
    by (simp add: backfill_selection_def)
  ultimately show ?thesis
    by (simp add: json_get_def p embedded_count_le)
qed

text \<open>
  C5, the example of the specification: ten selected records, three failing embedding
  calls, \<open>processed = 7\<close> and \<open>total = 10\<close>.
\<close>

theorem handleBackfill_ten_records_three_failures:
  "store_fault world_backfill (store_reqs world_backfill) = None
   \<and> (case fst (handleBackfill client0 10 world_backfill) of
         Inl e \<Rightarrow> False
       | Inr res \<Rightarrow> json_get ''processed'' res = Some (JNum 7)
                    \<and> json_get ''total'' res = Some (JNum 10))"
  using handleBackfill_counts [where w = world_backfill and client = client0 and batchSize = 10]
  by (simp add: world_backfill_def world0_def backfill_selection_def embedded_count_def
        embed_succeeds_def backfill_row_def split: sum.splits)

section \<open>Restoring from the cache\<close>







section \<open>Synchronising without the cache\<close>


















end
